theory Spec2Isabelle
  imports Complex_Main "HOL-Library.Multiset"
begin

section \<open>Helper enums and functions (env/utils.py)\<close>

text \<open>
  The enums of \<^verbatim>\<open>utils.py\<close> are string enums. Python compares a \<^verbatim>\<open>CardSuit\<close> with a
  \<^verbatim>\<open>TrumpSuit\<close> by their string values, so both get a value function; the four suit
  glyphs are written with ASCII names here, which keeps the values distinct exactly as
  the glyphs are.
\<close>

datatype TrumpSuit = TS_CLUB | TS_SPADE | TS_HEART | TS_DIAMOND | TS_XJ | TS_DJ

datatype CardSuit = CLUB | SPADE | HEART | DIAMOND | TRUMP

fun TrumpSuit_value :: "TrumpSuit \<Rightarrow> string" where
  "TrumpSuit_value TS_CLUB = ''club''"
| "TrumpSuit_value TS_SPADE = ''spade''"
| "TrumpSuit_value TS_HEART = ''heart''"
| "TrumpSuit_value TS_DIAMOND = ''diamond''"
| "TrumpSuit_value TS_XJ = ''XJ''"
| "TrumpSuit_value TS_DJ = ''DJ''"

fun CardSuit_value :: "CardSuit \<Rightarrow> string" where
  "CardSuit_value CLUB = ''club''"
| "CardSuit_value SPADE = ''spade''"
| "CardSuit_value HEART = ''heart''"
| "CardSuit_value DIAMOND = ''diamond''"
| "CardSuit_value TRUMP = ''T''"

definition is_NT :: "TrumpSuit \<Rightarrow> bool" where
  "is_NT s \<longleftrightarrow> TrumpSuit_value s = ''XJ'' \<or> TrumpSuit_value s = ''DJ''"

datatype RelativePosition = LEFT | RIGHT | OPPOSITE | SELF

datatype AbsolutePosition = NORTH | SOUTH | EAST | WEST

text \<open>Index of a seat in the list \<^verbatim>\<open>['N', 'W', 'S', 'E']\<close>.\<close>

fun nwse_index :: "AbsolutePosition \<Rightarrow> int" where
  "nwse_index NORTH = 0"
| "nwse_index WEST = 1"
| "nwse_index SOUTH = 2"
| "nwse_index EAST = 3"

definition relative_to :: "AbsolutePosition \<Rightarrow> AbsolutePosition \<Rightarrow> RelativePosition" where
  "relative_to self position =
     [SELF, LEFT, OPPOSITE, RIGHT] ! nat ((nwse_index position - nwse_index self) mod 4)"

fun next_position :: "AbsolutePosition \<Rightarrow> AbsolutePosition" where
  "next_position NORTH = WEST"
| "next_position WEST = SOUTH"
| "next_position SOUTH = EAST"
| "next_position EAST = NORTH"

fun last_position :: "AbsolutePosition \<Rightarrow> AbsolutePosition" where
  "last_position NORTH = EAST"
| "last_position WEST = NORTH"
| "last_position SOUTH = WEST"
| "last_position EAST = SOUTH"

datatype Stage = declare_stage | kitty_stage | chaodi_stage | main_stage

text \<open>
  A card is a string in the source: \<^verbatim>\<open>'DJ'\<close>, \<^verbatim>\<open>'XJ'\<close>, or a rank letter followed by a suit
  glyph. \<^verbatim>\<open>NUMERIC_RANK[card[:-1]]\<close> reads the letter and \<^verbatim>\<open>CardSuit(card[-1])\<close> the glyph.
\<close>

datatype RankLetter = L2 | L3 | L4 | L5 | L6 | L7 | L8 | L9 | L10 | LJ | LQ | LK | LA

datatype Card = CardDJ | CardXJ | Card RankLetter CardSuit

fun NUMERIC_RANK :: "RankLetter \<Rightarrow> int" where
  "NUMERIC_RANK L2 = 2"
| "NUMERIC_RANK L3 = 3"
| "NUMERIC_RANK L4 = 4"
| "NUMERIC_RANK L5 = 5"
| "NUMERIC_RANK L6 = 6"
| "NUMERIC_RANK L7 = 7"
| "NUMERIC_RANK L8 = 8"
| "NUMERIC_RANK L9 = 9"
| "NUMERIC_RANK L10 = 10"
| "NUMERIC_RANK LJ = 11"
| "NUMERIC_RANK LQ = 12"
| "NUMERIC_RANK LK = 13"
| "NUMERIC_RANK LA = 14"

text \<open>\<^verbatim>\<open>LETTER_RANK[n]\<close> raises KeyError outside 2..14: \<open>None\<close> here.\<close>

definition LETTER_RANK :: "int \<Rightarrow> RankLetter option" where
  "LETTER_RANK n =
     (if n = 2 then Some L2 else if n = 3 then Some L3 else if n = 4 then Some L4
      else if n = 5 then Some L5 else if n = 6 then Some L6 else if n = 7 then Some L7
      else if n = 8 then Some L8 else if n = 9 then Some L9 else if n = 10 then Some L10
      else if n = 11 then Some LJ else if n = 12 then Some LQ else if n = 13 then Some LK
      else if n = 14 then Some LA else None)"

record Declaration =
  suit :: TrumpSuit
  level :: int
  absolute_position :: AbsolutePosition
  relative_position :: "RelativePosition option"

definition mk_Declaration :: "TrumpSuit \<Rightarrow> int \<Rightarrow> AbsolutePosition \<Rightarrow> Declaration" where
  "mk_Declaration s l p =
     \<lparr>suit = s, level = l, absolute_position = p, relative_position = None\<rparr>"

definition Declaration_relative_to :: "Declaration \<Rightarrow> AbsolutePosition \<Rightarrow> Declaration" where
  "Declaration_relative_to d position =
     \<lparr>suit = suit d, level = level d, absolute_position = absolute_position d,
      relative_position = Some (relative_to (absolute_position d) position)\<rparr>"

text \<open>The card string of a suit declaration: the rank letter followed by the suit's value.\<close>

fun TrumpSuit_as_CardSuit :: "TrumpSuit \<Rightarrow> CardSuit" where
  "TrumpSuit_as_CardSuit TS_CLUB = CLUB"
| "TrumpSuit_as_CardSuit TS_SPADE = SPADE"
| "TrumpSuit_as_CardSuit TS_HEART = HEART"
| "TrumpSuit_as_CardSuit TS_DIAMOND = DIAMOND"
| "TrumpSuit_as_CardSuit TS_XJ = TRUMP"
| "TrumpSuit_as_CardSuit TS_DJ = TRUMP"

definition get_card :: "Declaration \<Rightarrow> int \<Rightarrow> (Card \<times> nat) option" where
  "get_card d dominant_rank =
     (case LETTER_RANK dominant_rank of
        None \<Rightarrow> None
      | Some rank_symbol \<Rightarrow>
          (let count = (if level d = 0 then 1 else 2) in
           if suit d = TS_XJ then Some (CardXJ, count)
           else if suit d = TS_DJ then Some (CardDJ, count)
           else Some (Card rank_symbol (TrumpSuit_as_CardSuit (suit d)), count)))"

definition chaodi_level :: "TrumpSuit \<Rightarrow> int \<Rightarrow> int" where
  "chaodi_level s l =
     (if l \<ge> 1 then
        (if s = TS_DIAMOND then 1
         else if s = TS_CLUB then 2
         else if s = TS_HEART then 3
         else if s = TS_SPADE then 4
         else if s = TS_XJ then 5
         else 6)
      else 0)"

fun get_suit :: "Card \<Rightarrow> TrumpSuit \<Rightarrow> int \<Rightarrow> CardSuit" where
  "get_suit CardXJ dominant_suit dominant_rank = TRUMP"
| "get_suit CardDJ dominant_suit dominant_rank = TRUMP"
| "get_suit (Card letter s) dominant_suit dominant_rank =
     (let rank = NUMERIC_RANK letter in
      if rank = dominant_rank \<or> CardSuit_value s = TrumpSuit_value dominant_suit
      then TRUMP else s)"

fun get_rank :: "Card \<Rightarrow> TrumpSuit \<Rightarrow> int \<Rightarrow> int" where
  "get_rank CardDJ dominant_suit dominant_rank = 18"
| "get_rank CardXJ dominant_suit dominant_rank = 17"
| "get_rank (Card letter s) dominant_suit dominant_rank =
     (let rank = NUMERIC_RANK letter in
      if rank = dominant_rank
         \<and> (CardSuit_value s = TrumpSuit_value dominant_suit \<or> is_NT dominant_suit)
      then 16
      else if rank = dominant_rank then 15
      else if rank < dominant_rank then rank + 1
      else rank)"

section \<open>Card sets (env/CardSet.py)\<close>

text \<open>
  \<^verbatim>\<open>ORDERING\<close> of \<^verbatim>\<open>utils.py\<close>: the 54 card tokens, diamonds, clubs, hearts, spades from
  ace down to two, then the small and the big joker.
\<close>

definition suit_run :: "CardSuit \<Rightarrow> Card list" where
  "suit_run s = map (\<lambda>l. Card l s) [LA, LK, LQ, LJ, L10, L9, L8, L7, L6, L5, L4, L3, L2]"

definition ORDERING :: "Card list" where
  "ORDERING = suit_run DIAMOND @ suit_run CLUB @ suit_run HEART @ suit_run SPADE @ [CardXJ, CardDJ]"

datatype error = AssertionError | StopIteration | IndexError | KeyError | ValueError
  | AttributeError | CardSetError

text \<open>
  Modelled from the spec: the class \<^verbatim>\<open>CardSet\<close> (env/CardSet.py) is not among the sources.
  The spec describes it as a mapping from card identity to a non-negative count, with
  addition and removal of a single card or of a whole card set, where removal fails if
  more is removed than is present; with the count of a specific card, the count of the
  cards of an effective suit and the filter by effective suit. A multiset of cards is
  that mapping.
\<close>

type_synonym CardSet = "Card multiset"

definition add_card :: "CardSet \<Rightarrow> Card \<Rightarrow> nat \<Rightarrow> CardSet" where
  "add_card cs c n = cs + replicate_mset n c"

definition remove_card :: "CardSet \<Rightarrow> Card \<Rightarrow> error + CardSet" where
  "remove_card cs c = (if c \<in># cs then Inr (cs - {#c#}) else Inl CardSetError)"

definition add_cardset :: "CardSet \<Rightarrow> CardSet \<Rightarrow> CardSet" where
  "add_cardset cs other = cs + other"

definition remove_cardset :: "CardSet \<Rightarrow> CardSet \<Rightarrow> error + CardSet" where
  "remove_cardset cs other = (if other \<subseteq># cs then Inr (cs - other) else Inl CardSetError)"

definition has_card :: "CardSet \<Rightarrow> Card \<Rightarrow> bool" where
  "has_card cs c \<longleftrightarrow> c \<in># cs"

definition count_suit :: "CardSet \<Rightarrow> CardSuit \<Rightarrow> TrumpSuit \<Rightarrow> int \<Rightarrow> nat" where
  "count_suit cs s dominant_suit dominant_rank =
     size (filter_mset (\<lambda>c. get_suit c dominant_suit dominant_rank = s) cs)"

definition filter_by_suit :: "CardSet \<Rightarrow> CardSuit \<Rightarrow> TrumpSuit \<Rightarrow> int \<Rightarrow> CardSet" where
  "filter_by_suit cs s dominant_suit dominant_rank =
     filter_mset (\<lambda>c. get_suit c dominant_suit dominant_rank = s) cs"

text \<open>
  Modelled from the spec: \<^verbatim>\<open>CardSet.get_count(suit, dominant_rank)\<close> is the number of
  qualifying cards a hand holds for a declaration of that suit: the trump-rank card of
  the suit, or the joker for a joker declaration.
\<close>

definition get_count :: "CardSet \<Rightarrow> TrumpSuit \<Rightarrow> int \<Rightarrow> error + nat" where
  "get_count cs s dominant_rank =
     (if s = TS_XJ then Inr (count cs CardXJ)
      else if s = TS_DJ then Inr (count cs CardDJ)
      else (case LETTER_RANK dominant_rank of
              None \<Rightarrow> Inl KeyError
            | Some l \<Rightarrow> Inr (count cs (Card l (TrumpSuit_as_CardSuit s)))))"

text \<open>
  Modelled from the spec: \<^verbatim>\<open>CardSet._cards.items()\<close>, the count of every card token.
\<close>

definition CardSet_items :: "CardSet \<Rightarrow> (Card \<times> nat) list" where
  "CardSet_items cs = map (\<lambda>c. (c, count cs c)) ORDERING"

text \<open>
  Modelled from the spec: \<^verbatim>\<open>CardSet.new_deck()\<close> gives the full deck as a card set, two
  copies of the 54 tokens.
\<close>

definition full_deck :: CardSet where
  "full_deck = mset (ORDERING @ ORDERING)"

text \<open>
  Modelled from the spec: the move types single, pair, tractor and combo of
  \<^verbatim>\<open>CardSet.MoveType\<close>, each with the card set it plays.
\<close>

datatype MoveType = Single Card | Pair Card | Tractor CardSet | Combo CardSet

fun cardset :: "MoveType \<Rightarrow> CardSet" where
  "cardset (Single c) = {#c#}"
| "cardset (Pair c) = {#c, c#}"
| "cardset (Tractor cs) = cs"
| "cardset (Combo cs) = cs"

text \<open>
  The move enumeration, the legality check, the round winner and the point count of
  \<^verbatim>\<open>CardSet\<close> are not among the sources either; the game takes them as parameters.
  \<open>append_lead_move\<close> is what the constructor of \<^verbatim>\<open>AppendLeadAction(current, move)\<close>
  stores as its \<^verbatim>\<open>move\<close>.
\<close>

record CardSetOps =
  trump_declaration_options :: "CardSet \<Rightarrow> int \<Rightarrow> (TrumpSuit \<times> int) list"
  get_leading_moves :: "CardSet \<Rightarrow> TrumpSuit \<Rightarrow> int \<Rightarrow> MoveType list"
  get_matching_moves :: "CardSet \<Rightarrow> MoveType \<Rightarrow> TrumpSuit \<Rightarrow> int \<Rightarrow> CardSet list"
  is_legal_combo :: "MoveType \<Rightarrow> CardSet list \<Rightarrow> TrumpSuit \<Rightarrow> int \<Rightarrow> bool \<times> CardSet"
  round_winner :: "CardSet list \<Rightarrow> TrumpSuit \<Rightarrow> int \<Rightarrow> nat"
  get_multiplier :: "MoveType \<Rightarrow> TrumpSuit \<Rightarrow> int \<Rightarrow> int"
  total_points :: "CardSet \<Rightarrow> int"
  card_list :: "CardSet \<Rightarrow> Card list"
  append_lead_move :: "CardSet \<Rightarrow> MoveType \<Rightarrow> MoveType"

section \<open>Actions and observations\<close>

datatype Action =
    DontDeclareAction
  | DeclareAction Declaration
  | PlaceKittyAction Card nat
  | PlaceAllKittyAction CardSet
  | DontChaodiAction
  | ChaodiAction Declaration
  | LeadAction MoveType
  | AppendLeadAction CardSet MoveType
  | EndLeadAction MoveType
  | FollowAction CardSet

text \<open>The keyword arguments with which \<^verbatim>\<open>get_observation\<close> builds an \<^verbatim>\<open>Observation\<close>.\<close>

record Observation =
  obs_hand :: CardSet
  obs_position :: AbsolutePosition
  obs_actions :: "Action list"
  obs_stage :: Stage
  obs_dominant_rank :: int
  obs_declaration :: "Declaration option"
  obs_next_declaration_turn :: "RelativePosition option"
  obs_dealer_position :: "RelativePosition option"
  obs_defender_points :: int
  obs_opponent_points :: int
  obs_round_history :: "(RelativePosition \<times> CardSet list) list"
  obs_unplayed_cards :: CardSet
  obs_leads_current_trick :: bool
  obs_chaodi_times :: "int list"
  obs_kitty :: "CardSet option"
  obs_is_chaodi_turn :: bool
  obs_perceived_left :: CardSet
  obs_perceived_right :: CardSet
  obs_perceived_opposite :: CardSet
  obs_actual_left :: CardSet
  obs_actual_right :: CardSet
  obs_actual_opposite :: CardSet
  obs_oracle_value :: rat

section \<open>The game (env/Game.py)\<close>

text \<open>
  \<open>deck\<close> is what the iterator \<^verbatim>\<open>self.deck\<close> has still to yield. Rewards, the oracle
  coefficient and the combo penalty are Python floats; they are exact rationals here.
\<close>

record Game =
  hands :: "AbsolutePosition \<Rightarrow> CardSet"
  public_cards :: "AbsolutePosition \<Rightarrow> CardSet"
  unplayed_cards :: CardSet
  deck :: "Card list"
  kitty :: CardSet
  round_history :: "(AbsolutePosition \<times> CardSet list) list"
  stage :: Stage
  kitty_stage_completed :: bool
  kitty_owner :: "AbsolutePosition option"
  dominant_rank :: int
  declarations :: "Declaration list"
  current_declaration_turn :: "AbsolutePosition option"
  initial_declaration_position :: "AbsolutePosition option"
  is_initial_game :: bool
  dealer_position :: "AbsolutePosition option"
  opponent_points :: int
  defender_points :: int
  game_ended :: bool
  points_per_round :: "int list"
  final_opponent_reward :: "int option"
  final_defender_reward :: "int option"
  enable_chaodi :: bool
  current_chaodi_turn :: "AbsolutePosition option"
  initial_chaodi_position :: "AbsolutePosition option"
  chaodi_times :: "int list"
  enable_combos :: bool
  draw_order :: "(AbsolutePosition \<times> Card) list"
  is_warmup_game :: bool
  oracle_value :: rat
  consecutive_moves :: int
  combo_penalty :: rat
  combo_alternation :: bool

text \<open>
  \<^verbatim>\<open>Game.__init__\<close>. \<open>shuffled\<close> is the card list \<^verbatim>\<open>CardSet.new_deck()\<close> returns (a random
  order of the deck), \<open>tutorial\<close> the list \<^verbatim>\<open>CardSet.get_tutorial_deck()\<close> returns;
  \<^verbatim>\<open>deck or self.card_list\<close> takes the shuffled list for \<^verbatim>\<open>None\<close> and for the empty list.
\<close>

definition Game_init ::
  "Card list \<Rightarrow> Card list \<Rightarrow> int \<Rightarrow> AbsolutePosition option \<Rightarrow> bool \<Rightarrow> bool \<Rightarrow> Card list option
     \<Rightarrow> bool \<Rightarrow> rat \<Rightarrow> rat \<Rightarrow> bool \<Rightarrow> Game" where
  "Game_init shuffled tutorial dominant_rank0 dealer enable_chaodi0 enable_combos0 deck0
       is_warmup_game0 oracle_value0 combo_penalty0 combo_alternation0 =
     \<lparr>hands = (\<lambda>_. {#}),
      public_cards = (\<lambda>_. {#}),
      unplayed_cards = full_deck,
      deck = (if is_warmup_game0 then tutorial
              else (case deck0 of None \<Rightarrow> shuffled | Some [] \<Rightarrow> shuffled | Some d \<Rightarrow> d)),
      kitty = {#},
      round_history = [],
      stage = declare_stage,
      kitty_stage_completed = False,
      kitty_owner = dealer,
      dominant_rank = dominant_rank0,
      declarations = [],
      current_declaration_turn = None,
      initial_declaration_position = None,
      is_initial_game = (dealer = None),
      dealer_position = dealer,
      opponent_points = 0,
      defender_points = 0,
      game_ended = False,
      points_per_round = [],
      final_opponent_reward = None,
      final_defender_reward = None,
      enable_chaodi = enable_chaodi0,
      current_chaodi_turn = None,
      initial_chaodi_position = None,
      chaodi_times = [0, 0, 0, 0],
      enable_combos = enable_combos0,
      draw_order = [],
      is_warmup_game = is_warmup_game0,
      oracle_value = oracle_value0,
      consecutive_moves = 0,
      combo_penalty = combo_penalty0,
      combo_alternation = combo_alternation0\<rparr>"

definition dominant_suit :: "Game \<Rightarrow> TrumpSuit" where
  "dominant_suit g = (if declarations g \<noteq> [] then suit (last (declarations g)) else TS_XJ)"

text \<open>\<^verbatim>\<open>sum([h.size for h in self.hands.values()])\<close>\<close>

definition hands_total :: "Game \<Rightarrow> nat" where
  "hands_total g =
     size (hands g NORTH) + size (hands g SOUTH) + size (hands g WEST) + size (hands g EAST)"

text \<open>
  Drawing the next card of the deck for a seat, as \<^verbatim>\<open>start_game\<close> and the two drawing
  branches of \<^verbatim>\<open>run_action\<close> do; \<^verbatim>\<open>next(self.deck)\<close> raises StopIteration on an empty deck.
\<close>

definition draw_card :: "Game \<Rightarrow> AbsolutePosition \<Rightarrow> error + Game" where
  "draw_card g p =
     (case deck g of
        [] \<Rightarrow> Inl StopIteration
      | next_card # rest \<Rightarrow>
          Inr (g\<lparr>deck := rest,
                 hands := (hands g)(p := add_card (hands g p) next_card 1),
                 draw_order := draw_order g @ [(p, next_card)]\<rparr>))"

text \<open>\<open>rnd\<close> is the seat \<^verbatim>\<open>AbsolutePosition.random()\<close> returns when it is called.\<close>

definition start_game :: "AbsolutePosition \<Rightarrow> Game \<Rightarrow> error + (Game \<times> AbsolutePosition)" where
  "start_game rnd g =
     (let first_player = (case dealer_position g of Some d \<Rightarrow> d | None \<Rightarrow> rnd) in
      case draw_card g first_player of
        Inl e \<Rightarrow> Inl e
      | Inr g' \<Rightarrow> Inr (g', first_player))"

subsection \<open>Applying an action (\<^verbatim>\<open>run_action\<close>)\<close>

text \<open>
  Each branch of \<^verbatim>\<open>run_action\<close> is a function of its own. A branch returns the updated
  game, the seat to act next (\<open>None\<close> where the source returns \<^verbatim>\<open>None\<close>) and the reward;
  a failed assertion or a raised exception is \<open>Inl\<close>.
\<close>

type_synonym outcome = "error + (Game \<times> AbsolutePosition option \<times> rat)"

definition run_DontDeclare :: "AbsolutePosition \<Rightarrow> Game \<Rightarrow> AbsolutePosition \<Rightarrow> outcome" where
  "run_DontDeclare rnd g p =
     (if current_declaration_turn g = Some p then
        (if Some (next_position p) = initial_declaration_position g then
           (let dealer = (case dealer_position g of Some d \<Rightarrow> d | None \<Rightarrow> rnd) in
            Inr (g\<lparr>current_declaration_turn := None,
                   stage := kitty_stage,
                   dealer_position := Some dealer,
                   hands := (hands g)(dealer := hands g dealer + mset (deck g)),
                   deck := []\<rparr>,
                 Some dealer, 0))
         else
           Inr (g\<lparr>current_declaration_turn := Some (next_position p)\<rparr>,
                Some (next_position p), 0))
      else if hands_total g < 100 then
        (if \<not> size (hands g (next_position p)) < 25 then Inl AssertionError
         else (case draw_card g (next_position p) of
                 Inl e \<Rightarrow> Inl e
               | Inr g' \<Rightarrow> Inr (g', Some (next_position p), 0)))
      else
        Inr (g\<lparr>initial_declaration_position := Some (next_position p),
               current_declaration_turn := Some (next_position p)\<rparr>,
             Some (next_position p), 0))"

definition run_Declare :: "Game \<Rightarrow> Declaration \<Rightarrow> AbsolutePosition \<Rightarrow> outcome" where
  "run_Declare g d p =
     (if \<not> (declarations g = [] \<or> level (last (declarations g)) < level d)
      then Inl AssertionError
      else (case get_count (hands g p) (suit d) (dominant_rank g) of
              Inl e \<Rightarrow> Inl e
            | Inr n \<Rightarrow>
                if \<not> n \<ge> 1 then Inl AssertionError
                else
                  (let g1 = (if dealer_position g = None \<or> is_initial_game g
                             then g\<lparr>dealer_position := Some p, kitty_owner := Some p\<rparr>
                             else g);
                       g2 = g1\<lparr>declarations := declarations g1 @ [d]\<rparr>
                   in case get_card d (dominant_rank g2) of
                        None \<Rightarrow> Inl KeyError
                      | Some (c, k) \<Rightarrow>
                          (let g3 = g2\<lparr>public_cards :=
                                         (public_cards g2)(p := add_card (public_cards g2 p) c k)\<rparr>
                           in if hands_total g3 < 100 then
                                (case draw_card g3 (next_position p) of
                                   Inl e \<Rightarrow> Inl e
                                 | Inr g' \<Rightarrow> Inr (g', Some (next_position p), 0))
                              else
                                Inr (g3\<lparr>initial_declaration_position := Some p,
                                        current_declaration_turn := Some (next_position p)\<rparr>,
                                     Some (next_position p), 0)))))"

text \<open>
  The number of natural suits of which a hand holds a card, and the shaped reward that
  the \<^verbatim>\<open>PlaceKittyAction\<close> branch computes from the hand before and after the discard.
\<close>

definition suit_count :: "CardSet \<Rightarrow> TrumpSuit \<Rightarrow> int \<Rightarrow> int" where
  "suit_count h ds dr =
     int (length (filter (\<lambda>s. count_suit h s ds dr > 0) [CLUB, DIAMOND, HEART, SPADE]))"

definition kitty_reward :: "CardSet \<Rightarrow> CardSet \<Rightarrow> Card \<Rightarrow> TrumpSuit \<Rightarrow> int \<Rightarrow> rat" where
  "kitty_reward before after c ds dr =
     (let suit_count_before = suit_count before ds dr;
          trump_count_before = count_suit before TRUMP ds dr;
          suit_count_after = suit_count after ds dr;
          trump_count_after = count_suit after TRUMP ds dr;
          reward = (2 / 10) * of_int (suit_count_before - suit_count_after);
          reward = (if trump_count_after < trump_count_before then reward - 5 / 10 else reward);
          reward = (if get_rank c ds dr \<ge> 15 then reward - 1 else reward)
      in reward)"

definition run_PlaceKitty :: "Game \<Rightarrow> Card \<Rightarrow> AbsolutePosition \<Rightarrow> outcome" where
  "run_PlaceKitty g c p =
     (if \<not> size (kitty g) < 8 then Inl AssertionError
      else (case remove_card (hands g p) c of
              Inl e \<Rightarrow> Inl e
            | Inr h \<Rightarrow>
                (let g1 = g\<lparr>kitty := add_card (kitty g) c 1, hands := (hands g)(p := h)\<rparr>;
                     reward = kitty_reward (hands g p) h c (dominant_suit g) (dominant_rank g)
                 in if size (kitty g1) = 8 then
                      (let g2 = (if round_history g1 = []
                                 then g1\<lparr>round_history := [(p, [])]\<rparr> else g1)
                       in if \<not> enable_chaodi g2 then
                            Inr (g2\<lparr>stage := main_stage\<rparr>, dealer_position g2, reward)
                          else
                            Inr (g2\<lparr>stage := chaodi_stage,
                                    initial_chaodi_position := Some p,
                                    current_chaodi_turn := Some (next_position p)\<rparr>,
                                 Some (next_position p), reward))
                    else Inr (g1, Some p, 0))))"

definition run_PlaceAllKitty :: "Game \<Rightarrow> CardSet \<Rightarrow> AbsolutePosition \<Rightarrow> outcome" where
  "run_PlaceAllKitty g cs p =
     (case remove_cardset (hands g p) cs of
        Inl e \<Rightarrow> Inl e
      | Inr h \<Rightarrow>
          (let g1 = g\<lparr>kitty := add_cardset (kitty g) cs, hands := (hands g)(p := h)\<rparr>;
               g2 = (if round_history g1 = [] then g1\<lparr>round_history := [(p, [])]\<rparr> else g1)
           in if \<not> enable_chaodi g2 \<or> declarations g2 = [] then
                Inr (g2\<lparr>stage := main_stage\<rparr>, dealer_position g2, 0)
              else
                Inr (g2\<lparr>stage := chaodi_stage,
                        initial_chaodi_position := Some p,
                        current_chaodi_turn := Some (next_position p)\<rparr>,
                     Some (next_position p), 0)))"

definition run_DontChaodi :: "Game \<Rightarrow> AbsolutePosition \<Rightarrow> outcome" where
  "run_DontChaodi g p =
     (case current_chaodi_turn g of
        None \<Rightarrow> Inl AttributeError
      | Some t \<Rightarrow>
          if Some (next_position t) = initial_chaodi_position g then
            Inr (g\<lparr>current_chaodi_turn := None, stage := main_stage\<rparr>, dealer_position g, 0)
          else
            Inr (g\<lparr>current_chaodi_turn := Some (next_position t)\<rparr>, Some (next_position t), 0))"

definition run_Chaodi :: "Game \<Rightarrow> Declaration \<Rightarrow> AbsolutePosition \<Rightarrow> outcome" where
  "run_Chaodi g d p =
     (let g1 = g\<lparr>declarations := declarations g @ [d],
                 hands := (hands g)(p := add_cardset (hands g p) (kitty g))\<rparr>
      in case remove_cardset (kitty g1) (kitty g1) of
           Inl e \<Rightarrow> Inl e
         | Inr k \<Rightarrow>
             (case get_card d (dominant_rank g1) of
                None \<Rightarrow> Inl KeyError
              | Some (c, n) \<Rightarrow>
                  if \<not> nat (nwse_index p) < length (chaodi_times g1) then Inl IndexError
                  else
                  (let g2 = g1\<lparr>kitty := k,
                               public_cards :=
                                 (public_cards g1)(p := add_card (public_cards g1 p) c n),
                               kitty_owner := Some p,
                               stage := kitty_stage,
                               chaodi_times :=
                                 (chaodi_times g1)[nat (nwse_index p) :=
                                    chaodi_times g1 ! nat (nwse_index p) + 1]\<rparr>
                   in if level d = 3 then Inr (g2\<lparr>current_chaodi_turn := None\<rparr>, Some p, 0)
                      else Inr (g2, Some p, 0))))"

definition run_Lead :: "Game \<Rightarrow> MoveType \<Rightarrow> AbsolutePosition \<Rightarrow> outcome" where
  "run_Lead g m p =
     (if round_history g = [] then Inl IndexError
      else
        (let (lead, moves) = last (round_history g) in
         Inr (g\<lparr>round_history := butlast (round_history g) @ [(lead, moves @ [cardset m])],
                consecutive_moves := 1\<rparr>,
              Some p, 0)))"

definition run_AppendLead :: "Game \<Rightarrow> MoveType \<Rightarrow> AbsolutePosition \<Rightarrow> outcome" where
  "run_AppendLead g m p =
     (if round_history g = [] then Inl IndexError
      else
        (let (lead, moves) = last (round_history g) in
         if moves = [] then Inl IndexError
         else
           Inr (g\<lparr>round_history := butlast (round_history g) @ [(lead, moves[0 := cardset m])],
                  consecutive_moves := consecutive_moves g + 1\<rparr>,
                Some p, 0)))"

definition run_EndLead :: "CardSetOps \<Rightarrow> Game \<Rightarrow> MoveType \<Rightarrow> AbsolutePosition \<Rightarrow> outcome" where
  "run_EndLead ops g m p =
     (let other_player_hands =
            [hands g (next_position p), hands g (next_position (next_position p)),
             hands g (next_position (next_position (next_position p)))];
          (is_legal, penalty_move) =
            is_legal_combo ops m other_player_hands (dominant_suit g) (dominant_rank g)
      in if round_history g = [] then Inl IndexError
         else
           (let (lead, moves) = last (round_history g) in
            if is_legal then
              (let moves1 = (if moves = [] then [cardset m] else moves) in
               case remove_cardset (hands g p) (cardset m) of
                 Inl e \<Rightarrow> Inl e
               | Inr h \<Rightarrow>
                   (case remove_cardset (unplayed_cards g) (cardset m) of
                      Inl e \<Rightarrow> Inl e
                    | Inr u \<Rightarrow>
                        Inr (g\<lparr>round_history := butlast (round_history g) @ [(lead, moves1)],
                               hands := (hands g)(p := h),
                               unplayed_cards := u,
                               public_cards := (public_cards g)(p := public_cards g p - cardset m)\<rparr>,
                             Some (next_position p), 0)))
            else if moves = [] then Inl IndexError
            else
              (case remove_cardset (hands g p) penalty_move of
                 Inl e \<Rightarrow> Inl e
               | Inr h \<Rightarrow>
                   (case remove_cardset (unplayed_cards g) penalty_move of
                      Inl e \<Rightarrow> Inl e
                    | Inr u \<Rightarrow>
                        (case remove_cardset (cardset m) penalty_move of
                           Inl e \<Rightarrow> Inl e
                         | Inr failed_cards \<Rightarrow>
                             Inr (g\<lparr>round_history :=
                                      butlast (round_history g) @ [(lead, butlast moves @ [penalty_move])],
                                    hands := (hands g)(p := h),
                                    unplayed_cards := u,
                                    public_cards :=
                                      (public_cards g)(p := public_cards g p \<union># failed_cards)\<rparr>,
                                  Some (next_position p), - combo_penalty g))))))"

text \<open>The final reward of the challengers, from their cumulative points.\<close>

definition opponent_reward :: "int \<Rightarrow> int" where
  "opponent_reward pts =
     (if pts \<ge> 80 then 1 + (pts - 80) div 40
      else if pts \<ge> 40 then - 1
      else if pts > 0 then - 2
      else - 3)"

text \<open>\<^verbatim>\<open>position_array.index(self.dealer_position)\<close>, ValueError when it is not in the list.\<close>

fun index_of :: "'a list \<Rightarrow> 'a \<Rightarrow> nat option" where
  "index_of [] x = None"
| "index_of (y # ys) x = (if y = x then Some 0 else map_option Suc (index_of ys x))"

definition finish_round ::
  "CardSetOps \<Rightarrow> Game \<Rightarrow> AbsolutePosition \<Rightarrow> CardSet list \<Rightarrow> AbsolutePosition \<Rightarrow> outcome" where
  "finish_round ops g lead_position moves p =
     (let winner_index = round_winner ops moves (dominant_suit g) (dominant_rank g);
          total = sum_list (map (total_points ops) moves);
          position_array = [lead_position, next_position lead_position,
                            next_position (next_position lead_position),
                            last_position lead_position]
      in case dealer_position g of
           None \<Rightarrow> Inl ValueError
         | Some dealer \<Rightarrow>
             (case index_of position_array dealer of
                None \<Rightarrow> Inl ValueError
              | Some dealer_index \<Rightarrow>
                  if \<not> winner_index < 4 then Inl IndexError
                  else
                    (let new_leading_position = position_array ! winner_index;
                         declarer_wins_round =
                           (winner_index = dealer_index \<or> (winner_index + 2) mod 4 = dealer_index);
                         g1 = (if declarer_wins_round
                               then g\<lparr>defender_points := defender_points g + total,
                                      points_per_round := points_per_round g @ [total]\<rparr>
                               else g\<lparr>opponent_points := opponent_points g + total,
                                      points_per_round := points_per_round g @ [- total]\<rparr>)
                     in if size (hands g1 p) = 0 then
                          (let g2 = g1\<lparr>game_ended := True\<rparr>;
                               g3 = (if \<not> declarer_wins_round then
                                       (let multiplier =
                                              get_multiplier ops (Combo (moves ! winner_index))
                                                (dominant_suit g2) (dominant_rank g2)
                                        in g2\<lparr>opponent_points :=
                                                opponent_points g2 + total_points ops (kitty g2) * multiplier,
                                              points_per_round :=
                                                butlast (points_per_round g2)
                                                @ [last (points_per_round g2)
                                                   - total_points ops (kitty g2) * multiplier]\<rparr>)
                                     else
                                       g2\<lparr>points_per_round :=
                                            butlast (points_per_round g2)
                                            @ [last (points_per_round g2)
                                               + total_points ops (kitty g2) * 2]\<rparr>)
                           in Inr (g3\<lparr>final_opponent_reward :=
                                        Some (opponent_reward (opponent_points g3)),
                                      final_defender_reward :=
                                        Some (- opponent_reward (opponent_points g3))\<rparr>,
                                   None, 0))
                        else
                          Inr (g1\<lparr>round_history := round_history g1 @ [(new_leading_position, [])]\<rparr>,
                               Some new_leading_position, 0))))"

definition run_Follow :: "CardSetOps \<Rightarrow> Game \<Rightarrow> CardSet \<Rightarrow> AbsolutePosition \<Rightarrow> outcome" where
  "run_Follow ops g cs p =
     (if round_history g = [] then Inl IndexError
      else
        (let (lead_position, moves0) = last (round_history g) in
         case remove_cardset (hands g p) cs of
           Inl e \<Rightarrow> Inl e
         | Inr h \<Rightarrow>
             (let moves = moves0 @ [cs] in
              case remove_cardset (unplayed_cards g) cs of
                Inl e \<Rightarrow> Inl e
              | Inr u \<Rightarrow>
                  (let g1 = g\<lparr>hands := (hands g)(p := h),
                              round_history := butlast (round_history g) @ [(lead_position, moves)],
                              unplayed_cards := u,
                              public_cards := (public_cards g)(p := public_cards g p - cs)\<rparr>
                   in if length moves = 4 then finish_round ops g1 lead_position moves p
                      else Inr (g1, Some (next_position p), 0)))))"

fun run_action ::
  "CardSetOps \<Rightarrow> AbsolutePosition \<Rightarrow> Game \<Rightarrow> Action \<Rightarrow> AbsolutePosition \<Rightarrow> outcome" where
  "run_action ops rnd g DontDeclareAction p = run_DontDeclare rnd g p"
| "run_action ops rnd g (DeclareAction d) p = run_Declare g d p"
| "run_action ops rnd g (PlaceKittyAction c n) p = run_PlaceKitty g c p"
| "run_action ops rnd g (PlaceAllKittyAction cs) p = run_PlaceAllKitty g cs p"
| "run_action ops rnd g DontChaodiAction p = run_DontChaodi g p"
| "run_action ops rnd g (ChaodiAction d) p = run_Chaodi g d p"
| "run_action ops rnd g (LeadAction m) p = run_Lead g m p"
| "run_action ops rnd g (AppendLeadAction cur m) p =
     run_AppendLead g (append_lead_move ops cur m) p"
| "run_action ops rnd g (EndLeadAction m) p = run_EndLead ops g m p"
| "run_action ops rnd g (FollowAction cs) p = run_Follow ops g cs p"

subsection \<open>Observations (\<^verbatim>\<open>get_observation\<close>)\<close>

text \<open>
  The legal actions of a seat. Reading \<^verbatim>\<open>self.round_history[-1]\<close> of an empty history and
  the first card of an empty card list raise IndexError.
\<close>

definition declare_offered :: "Game \<Rightarrow> AbsolutePosition \<Rightarrow> TrumpSuit \<Rightarrow> int \<Rightarrow> bool" where
  "declare_offered g p s l \<longleftrightarrow>
     declarations g = []
     \<or> (level (last (declarations g)) < l
        \<and> (suit (last (declarations g)) = s \<or> absolute_position (last (declarations g)) \<noteq> p))"

definition chaodi_offered :: "Game \<Rightarrow> TrumpSuit \<Rightarrow> int \<Rightarrow> bool" where
  "chaodi_offered g s l \<longleftrightarrow>
     declarations g \<noteq> []
     \<and> chaodi_level s l
         > chaodi_level (suit (last (declarations g))) (level (last (declarations g)))"

definition legal_actions :: "CardSetOps \<Rightarrow> Game \<Rightarrow> AbsolutePosition \<Rightarrow> error + Action list" where
  "legal_actions ops g p =
     (if stage g = declare_stage then
        Inr ((if \<not> is_warmup_game g then
                map (\<lambda>(s, l). DeclareAction (mk_Declaration s l p))
                  (filter (\<lambda>(s, l). declare_offered g p s l)
                     (trump_declaration_options ops (hands g p) (dominant_rank g)))
              else [])
             @ [DontDeclareAction])
      else if size (hands g p) > 25 then
        Inr (map (\<lambda>(c, n). PlaceKittyAction c n)
               (filter (\<lambda>(c, n). n > 0) (CardSet_items (hands g p))))
      else if current_chaodi_turn g = Some p then
        Inr ((if enable_chaodi g \<and> declarations g \<noteq> [] then
                map (\<lambda>(s, l). ChaodiAction (mk_Declaration s l p))
                  (filter (\<lambda>(s, l). chaodi_offered g s l)
                     (trump_declaration_options ops (hands g p) (dominant_rank g)))
              else [])
             @ [DontChaodiAction])
      else if round_history g = [] then Inl IndexError
      else
        (let (lead, moves) = last (round_history g) in
         if lead = p then
           (if \<not> enable_combos g \<or> moves = [] then
              (let ban_combos = (combo_alternation g \<and> (p = EAST \<or> p = WEST)) in
               Inr (map (\<lambda>m. if enable_combos g \<and> \<not> ban_combos then LeadAction m
                              else EndLeadAction m)
                      (get_leading_moves ops (hands g p) (dominant_suit g) (dominant_rank g))))
            else
              (let current_action = hd moves in
               case card_list ops current_action of
                 [] \<Rightarrow> Inl IndexError
               | c # _ \<Rightarrow>
                   (let current_action_suit = get_suit c (dominant_suit g) (dominant_rank g) in
                    case remove_cardset
                           (filter_by_suit (hands g p) current_action_suit
                              (dominant_suit g) (dominant_rank g))
                           current_action of
                      Inl e \<Rightarrow> Inl e
                    | Inr remaining_cards \<Rightarrow>
                        Inr ((if consecutive_moves g < 3 then
                                map (\<lambda>m. AppendLeadAction current_action m)
                                  (get_leading_moves ops remaining_cards
                                     (dominant_suit g) (dominant_rank g))
                              else [])
                             @ [EndLeadAction (Combo current_action)]))))
         else if moves = [] then Inl IndexError
         else
           Inr (map FollowAction
                  (get_matching_moves ops (hands g p) (Combo (hd moves))
                     (dominant_suit g) (dominant_rank g)))))"

definition get_observation :: "CardSetOps \<Rightarrow> Game \<Rightarrow> AbsolutePosition \<Rightarrow> error + Observation" where
  "get_observation ops g p =
     (case legal_actions ops g p of
        Inl e \<Rightarrow> Inl e
      | Inr acts \<Rightarrow>
          if acts = [] then Inl AssertionError
          else
            Inr \<lparr>obs_hand = hands g p,
                 obs_position = p,
                 obs_actions = acts,
                 obs_stage = stage g,
                 obs_dominant_rank = dominant_rank g,
                 obs_declaration =
                   (if declarations g \<noteq> []
                    then Some (Declaration_relative_to (last (declarations g)) p) else None),
                 obs_next_declaration_turn =
                   map_option (\<lambda>t. relative_to t p) (current_declaration_turn g),
                 obs_dealer_position = map_option (\<lambda>d. relative_to d p) (dealer_position g),
                 obs_defender_points = opponent_points g,
                 obs_opponent_points = opponent_points g,
                 obs_round_history = map (\<lambda>(q, cards). (relative_to q p, cards)) (round_history g),
                 obs_unplayed_cards = unplayed_cards g,
                 obs_leads_current_trick =
                   (if round_history g \<noteq> [] then fst (last (round_history g)) = p
                    else Some p = dealer_position g),
                 obs_chaodi_times = chaodi_times g,
                 obs_kitty = (if Some p = kitty_owner g then Some (kitty g) else None),
                 obs_is_chaodi_turn = (current_chaodi_turn g = Some p),
                 obs_perceived_left = public_cards g (last_position p),
                 obs_perceived_right = public_cards g (next_position p),
                 obs_perceived_opposite = public_cards g (next_position (next_position p)),
                 obs_actual_left = hands g (last_position p),
                 obs_actual_right = hands g (next_position p),
                 obs_actual_opposite = hands g (next_position (next_position p)),
                 obs_oracle_value = oracle_value g\<rparr>)"

subsection \<open>Card totals and runs of actions\<close>

text \<open>The cards of all groups played in the round history.\<close>

definition played_total :: "Game \<Rightarrow> nat" where
  "played_total g = sum_list (map (\<lambda>(q, moves). sum_list (map size moves)) (round_history g))"

definition cards_total :: "Game \<Rightarrow> nat" where
  "cards_total g = hands_total g + size (kitty g) + length (deck g) + played_total g"

text \<open>
  Applying a list of actions, each by its acting seat; the run stops at the first
  failure, as the exception would stop the caller.
\<close>

fun run_actions ::
  "CardSetOps \<Rightarrow> AbsolutePosition \<Rightarrow> Game \<Rightarrow> (Action \<times> AbsolutePosition) list \<Rightarrow> error + Game" where
  "run_actions ops rnd g [] = Inr g"
| "run_actions ops rnd g ((a, p) # rest) =
     (case run_action ops rnd g a p of
        Inl e \<Rightarrow> Inl e
      | Inr (g', _) \<Rightarrow> run_actions ops rnd g' rest)"

subsection \<open>Restricted runs and projections used in the statements\<close>

text \<open>
  An action that leaves no compound lead pending: it is neither a start-lead nor an
  extend-lead, and a close-lead is applied only to an open round that has no group yet.
  These are the lead actions \<^verbatim>\<open>get_observation\<close> offers when combos are disabled.
\<close>

fun no_pending_lead :: "Game \<Rightarrow> Action \<Rightarrow> bool" where
  "no_pending_lead g (LeadAction m) = False"
| "no_pending_lead g (AppendLeadAction cur m) = False"
| "no_pending_lead g (EndLeadAction m) =
     (round_history g \<noteq> [] \<and> snd (last (round_history g)) = [])"
| "no_pending_lead g a = True"

text \<open>
  The states reached from a game by \<^verbatim>\<open>start_game\<close> and by successfully applied actions
  that leave no compound lead pending.
\<close>

inductive reaches :: "CardSetOps \<Rightarrow> AbsolutePosition \<Rightarrow> Game \<Rightarrow> Game \<Rightarrow> bool"
  for ops :: CardSetOps and rnd :: AbsolutePosition and g0 :: Game where
  reaches_init: "reaches ops rnd g0 g0"
| reaches_start: "reaches ops rnd g0 g \<Longrightarrow> start_game rnd g = Inr (g', p) \<Longrightarrow> reaches ops rnd g0 g'"
| reaches_action:
    "reaches ops rnd g0 g \<Longrightarrow> no_pending_lead g a \<Longrightarrow> run_action ops rnd g a p = Inr (g', nx, r)
       \<Longrightarrow> reaches ops rnd g0 g'"


fun is_chaodi :: "Action \<Rightarrow> bool" where
  "is_chaodi (ChaodiAction d) = True"
| "is_chaodi a = False"

text \<open>An observation without the three fields that carry the other seats' actual hands.\<close>

definition without_actual_hands :: "Observation \<Rightarrow> Observation" where
  "without_actual_hands ob =
     ob\<lparr>obs_actual_left := {#}, obs_actual_right := {#}, obs_actual_opposite := {#}\<rparr>"

subsection \<open>Concrete games for evaluation\<close>

text \<open>
  Modelled from the spec: an instance of the \<^verbatim>\<open>CardSet\<close> parameters for plays of single
  cards, used to evaluate the game on concrete inputs. Points are the face value of the
  point-bearing ranks (five, ten and king); a trump single beats a non-trump single, a
  single of the led suit beats a lower one, and the earliest strongest play wins.
\<close>

definition cards_of :: "CardSet \<Rightarrow> Card list" where
  "cards_of cs = concat (map (\<lambda>c. replicate (count cs c) c) ORDERING)"

fun card_points :: "Card \<Rightarrow> int" where
  "card_points (Card L5 s) = 5"
| "card_points (Card L10 s) = 10"
| "card_points (Card LK s) = 10"
| "card_points c = 0"

definition single_strength :: "CardSuit \<Rightarrow> TrumpSuit \<Rightarrow> int \<Rightarrow> CardSet \<Rightarrow> int" where
  "single_strength led ds dr m =
     (case cards_of m of
        [c] \<Rightarrow> (if get_suit c ds dr = TRUMP then 100 + get_rank c ds dr
                else if get_suit c ds dr = led then get_rank c ds dr else 0)
      | _ \<Rightarrow> 0)"

fun first_max :: "int list \<Rightarrow> nat" where
  "first_max [] = 0"
| "first_max (x # xs) = (if \<forall>y \<in> set xs. y \<le> x then 0 else Suc (first_max xs))"

definition singles_ops :: CardSetOps where
  "singles_ops =
     \<lparr>trump_declaration_options = (\<lambda>h dr. []),
      get_leading_moves = (\<lambda>h ds dr. map Single (filter (\<lambda>c. c \<in># h) ORDERING)),
      get_matching_moves =
        (\<lambda>h m ds dr. map (\<lambda>c. {#c#})
           (case cards_of (cardset m) of
              [] \<Rightarrow> []
            | c # _ \<Rightarrow>
                (let led = filter (\<lambda>x. x \<in># h \<and> get_suit x ds dr = get_suit c ds dr) ORDERING
                 in if led = [] then filter (\<lambda>x. x \<in># h) ORDERING else led))),
      is_legal_combo = (\<lambda>m others ds dr. (True, {#})),
      round_winner =
        (\<lambda>moves ds dr.
           (case moves of
              [] \<Rightarrow> 0
            | m # _ \<Rightarrow>
                (case cards_of m of
                   [] \<Rightarrow> 0
                 | c # _ \<Rightarrow> first_max (map (single_strength (get_suit c ds dr) ds dr) moves)))),
      get_multiplier = (\<lambda>m ds dr. 2),
      total_points = (\<lambda>cs. sum_list (map card_points (cards_of cs))),
      card_list = cards_of,
      append_lead_move = (\<lambda>cur m. Combo (cur + cardset m))\<rparr>"

text \<open>
  A game of trump rank two dealt from the deck \<open>d\<close> with North as the dealer, and the
  passes of the seats in table order: pass \<open>i\<close> is by the seat that drew card \<open>i\<close>.
\<close>

definition table_seat :: "nat \<Rightarrow> AbsolutePosition" where
  "table_seat i = [NORTH, WEST, SOUTH, EAST] ! (i mod 4)"

definition passes :: "nat \<Rightarrow> nat \<Rightarrow> (Action \<times> AbsolutePosition) list" where
  "passes i j = map (\<lambda>k. (DontDeclareAction, table_seat k)) [i..<j]"

definition new_game :: "Card list \<Rightarrow> bool \<Rightarrow> bool \<Rightarrow> Game" where
  "new_game d chaodi combos =
     Game_init (ORDERING @ ORDERING) [] 2 (Some NORTH) chaodi combos (Some d) False 0 (1 / 10) False"

definition play ::
  "Card list \<Rightarrow> bool \<Rightarrow> bool \<Rightarrow> (Action \<times> AbsolutePosition) list \<Rightarrow> error + Game" where
  "play d chaodi combos acts =
     (case start_game NORTH (new_game d chaodi combos) of
        Inl e \<Rightarrow> Inl e
      | Inr (g, p) \<Rightarrow> run_actions singles_ops NORTH g acts)"

text \<open>The eight cards North receives last from the unshuffled double deck.\<close>

definition last_eight :: CardSet where
  "last_eight = mset (drop 100 (ORDERING @ ORDERING))"

text \<open>
  The first trick of the unshuffled double deck: North leads the ace of diamonds, West
  follows with the five, South with the queen, East with the jack.
\<close>

definition deal_and_kitty :: "(Action \<times> AbsolutePosition) list" where
  "deal_and_kitty = passes 0 104 @ [(PlaceAllKittyAction last_eight, NORTH)]"

definition first_trick :: "(Action \<times> AbsolutePosition) list" where
  "first_trick =
     [(EndLeadAction (Single (Card LA DIAMOND)), NORTH),
      (FollowAction {#Card L5 DIAMOND#}, WEST),
      (FollowAction {#Card LQ DIAMOND#}, SOUTH),
      (FollowAction {#Card LJ DIAMOND#}, EAST)]"

text \<open>
  A driver that lets the seat to act take the first action of its legal-action list,
  \<open>n\<close> times or until the game ends, and the unshuffled double deck driven so with
  counter-bids and combos disabled.
\<close>

fun drive :: "CardSetOps \<Rightarrow> AbsolutePosition \<Rightarrow> nat \<Rightarrow> Game \<Rightarrow> AbsolutePosition
    \<Rightarrow> error + (Game \<times> AbsolutePosition option)" where
  "drive ops rnd 0 g p = Inr (g, Some p)"
| "drive ops rnd (Suc n) g p =
     (case get_observation ops g p of
        Inl e \<Rightarrow> Inl e
      | Inr ob \<Rightarrow>
          (case obs_actions ob of
             [] \<Rightarrow> Inl AssertionError
           | a # _ \<Rightarrow>
               (case run_action ops rnd g a p of
                  Inl e \<Rightarrow> Inl e
                | Inr (g', None, r) \<Rightarrow> Inr (g', None)
                | Inr (g', Some q, r) \<Rightarrow> drive ops rnd n g' q)))"

definition driven :: "nat \<Rightarrow> error + (Game \<times> AbsolutePosition option)" where
  "driven n =
     (case start_game NORTH (new_game (ORDERING @ ORDERING) False False) of
        Inl e \<Rightarrow> Inl e
      | Inr (g, p) \<Rightarrow> drive singles_ops NORTH n g p)"

text \<open>
  A deck in which North's first two cards are the twos of diamonds and West's first two
  cards the twos of clubs, and a run in which North declares diamonds with the pair,
  everybody passes until the deal and the final lap are over, and North puts the last
  eight cards back as the kitty.
\<close>

definition pair_deck :: "Card list" where
  "pair_deck =
     [Card L2 DIAMOND, Card L2 CLUB, Card LA DIAMOND, Card LA CLUB,
      Card L2 DIAMOND, Card L2 CLUB, Card LA DIAMOND, Card LA CLUB]
     @ filter (\<lambda>c. c \<notin> set [Card L2 DIAMOND, Card L2 CLUB, Card LA DIAMOND, Card LA CLUB])
         (ORDERING @ ORDERING)"

definition declare_then_kitty :: "(Action \<times> AbsolutePosition) list" where
  "declare_then_kitty =
     passes 0 4 @ [(DeclareAction (mk_Declaration TS_DIAMOND 1 NORTH), NORTH)] @ passes 5 104
     @ [(PlaceAllKittyAction (mset (drop 100 pair_deck)), NORTH)]"

text \<open>North declares diamonds with one two, and West clubs with its pair five cards later.\<close>

definition two_declarations :: "(Action \<times> AbsolutePosition) list" where
  "two_declarations =
     [(DeclareAction (mk_Declaration TS_DIAMOND 0 NORTH), NORTH)] @ passes 1 5
     @ [(DeclareAction (mk_Declaration TS_CLUB 1 WEST), WEST)]"

section \<open>Effective rank\<close>

lemma NUMERIC_RANK_range: "2 \<le> NUMERIC_RANK l \<and> NUMERIC_RANK l \<le> 14"
  by (cases l) simp_all

text \<open>
  Claim C3. Under every trump context the effective rank has these tiers: the big joker
  is 18 and the small joker 17, above every other card; a card of the trump rank in the
  trump suit (or under a joker trump suit) is 16; a card of the trump rank in another
  suit is 15; a card whose natural rank is below the trump rank has its natural rank
  plus one; a card whose natural rank is above the trump rank keeps its natural rank.
\<close>

theorem get_rank_tiers:
  "get_rank CardDJ ds dr = 18 \<and> get_rank CardXJ ds dr = 17
   \<and> get_rank (Card l s) ds dr < 17
   \<and> (NUMERIC_RANK l = dr \<and> (CardSuit_value s = TrumpSuit_value ds \<or> is_NT ds)
        \<longrightarrow> get_rank (Card l s) ds dr = 16)
   \<and> (NUMERIC_RANK l = dr \<and> \<not> (CardSuit_value s = TrumpSuit_value ds \<or> is_NT ds)
        \<longrightarrow> get_rank (Card l s) ds dr = 15)
   \<and> (NUMERIC_RANK l < dr \<longrightarrow> get_rank (Card l s) ds dr = NUMERIC_RANK l + 1)
   \<and> (NUMERIC_RANK l > dr \<longrightarrow> get_rank (Card l s) ds dr = NUMERIC_RANK l)"
  using NUMERIC_RANK_range [of l] by (auto simp: Let_def)

theorem get_rank_tiers_witness:
  "get_rank (Card L7 HEART) TS_HEART 7 = 16
   \<and> get_rank (Card L7 CLUB) TS_XJ 7 = 16
   \<and> get_rank (Card L7 CLUB) TS_HEART 7 = 15
   \<and> get_rank (Card L5 CLUB) TS_HEART 7 = 6
   \<and> get_rank (Card LK CLUB) TS_HEART 7 = 13"
  using get_rank_tiers [of TS_HEART 7 L7 HEART]
    get_rank_tiers [of TS_XJ 7 L7 CLUB]
    get_rank_tiers [of TS_HEART 7 L7 CLUB]
    get_rank_tiers [of TS_HEART 7 L5 CLUB]
    get_rank_tiers [of TS_HEART 7 LK CLUB]
  by (simp add: is_NT_def)

section \<open>Observations report the challengers' points twice\<close>

text \<open>
  Claim C1 says that the observation's defender-points field is the game's cumulative
  defender points and its opponent-points field the cumulative challenger points.
  \<^verbatim>\<open>get_observation\<close> passes \<^verbatim>\<open>self.opponent_points\<close> for both keywords: every observation
  returned carries the challengers' points in both fields. After the first trick of the
  unshuffled double deck, which the dealer wins with a five in it, the defenders have 5
  points and the observation reports 0.
\<close>

theorem get_observation_points:
  "get_observation ops g p = Inr ob \<Longrightarrow>
     obs_defender_points ob = opponent_points g \<and> obs_opponent_points ob = opponent_points g"
  by (auto simp: get_observation_def split: sum.splits if_splits)

theorem get_observation_points_witness:
  "(case play (ORDERING @ ORDERING) False False (deal_and_kitty @ first_trick) of
      Inr g \<Rightarrow>
        (case get_observation singles_ops g NORTH of
           Inr ob \<Rightarrow> defender_points g = 5 \<and> opponent_points g = 0 \<and> obs_defender_points ob = 0
         | Inl e \<Rightarrow> False)
    | Inl e \<Rightarrow> False)"
proof -
  have ev: "(case play (ORDERING @ ORDERING) False False (deal_and_kitty @ first_trick) of
      Inr g \<Rightarrow> defender_points g = 5 \<and> opponent_points g = 0
         \<and> (case get_observation singles_ops g NORTH of Inr ob \<Rightarrow> True | Inl e \<Rightarrow> False)
    | Inl e \<Rightarrow> False)"
    by code_simp
  then obtain g where g: "play (ORDERING @ ORDERING) False False (deal_and_kitty @ first_trick) = Inr g"
    by (cases "play (ORDERING @ ORDERING) False False (deal_and_kitty @ first_trick)") auto
  with ev have pts: "defender_points g = 5" "opponent_points g = 0"
    and ok: "(case get_observation singles_ops g NORTH of Inr ob \<Rightarrow> True | Inl e \<Rightarrow> False)"
    by auto
  from ok obtain ob where ob: "get_observation singles_ops g NORTH = Inr ob"
    by (cases "get_observation singles_ops g NORTH") auto
  from get_observation_points [OF ob] pts show ?thesis
    by (simp add: g ob)
qed

section \<open>Kitty placement\<close>

text \<open>
  Claim C5 says that each of the eight single discards returns its shaped reward. The
  \<^verbatim>\<open>PlaceKittyAction\<close> branch computes the shaped reward of every discard and returns it
  only for the discard that completes the kitty; for the seven before it the branch
  returns 0. North, holding 33 cards after the deal of the unshuffled double deck,
  discards the big joker first: the shaped reward of that discard is \<open>-3/2\<close>, the reward
  returned is 0.
\<close>

theorem kitty_discard_reward_dropped:
  "(case play (ORDERING @ ORDERING) False False (passes 0 104) of
      Inr g \<Rightarrow>
        (case run_action singles_ops NORTH g (PlaceKittyAction CardDJ 1) NORTH of
           Inr (g', nx, r) \<Rightarrow>
             r = 0 \<and> size (kitty g') = 1
             \<and> kitty_reward (hands g NORTH) (hands g' NORTH) CardDJ (dominant_suit g) (dominant_rank g)
                 = - (3 / 2)
         | Inl e \<Rightarrow> False)
    | Inl e \<Rightarrow> False)"
  by code_simp

text \<open>
  In general the reward a single discard returns is its shaped reward when the discard
  completes the kitty, and 0 otherwise.
\<close>

lemma PlaceKitty_reward:
  "run_action ops rnd g (PlaceKittyAction c n) p = Inr (g', nx, r) \<Longrightarrow>
     r = (if size (kitty g') = 8
          then kitty_reward (hands g p) (hands g' p) c (dominant_suit g) (dominant_rank g)
          else 0)"
  by (auto simp: run_PlaceKitty_def Let_def add_card_def split: if_splits sum.splits)

text \<open>
  Claim C10 says that with eight cards in the kitty both kitty-placement actions abort.
  The \<^verbatim>\<open>PlaceKittyAction\<close> branch asserts that the kitty holds fewer than eight cards; the
  \<^verbatim>\<open>PlaceAllKittyAction\<close> branch has no such check. Once North has placed eight cards,
  a single discard fails with the assertion, and a batch of one more card is accepted
  and leaves nine cards in the kitty.
\<close>

theorem full_kitty_accepts_batch:
  "(case play (ORDERING @ ORDERING) False False deal_and_kitty of
      Inr g \<Rightarrow>
        size (kitty g) = 8
        \<and> (case run_action singles_ops NORTH g (PlaceKittyAction (Card LA DIAMOND) 1) NORTH of
             Inr out \<Rightarrow> False
           | Inl e \<Rightarrow> e = AssertionError)
        \<and> (case run_action singles_ops NORTH g (PlaceAllKittyAction {#Card LA DIAMOND#}) NORTH of
             Inr (g', nx, r) \<Rightarrow> size (kitty g') = 9 \<and> size (hands g' NORTH) = 24
           | Inl e \<Rightarrow> False)
    | Inl e \<Rightarrow> False)"
  by code_simp

lemma PlaceKitty_full_fails:
  "\<not> size (kitty g) < 8 \<Longrightarrow> run_action ops rnd g (PlaceKittyAction c n) p = Inl AssertionError"
  by (simp add: run_PlaceKitty_def)

lemma PlaceAllKitty_never_capacity:
  "cs \<subseteq># hands g p \<Longrightarrow>
     \<exists>g' nx r. run_action ops rnd g (PlaceAllKittyAction cs) p = Inr (g', nx, r)
       \<and> kitty g' = kitty g + cs"
  by (simp add: run_PlaceAllKitty_def remove_cardset_def add_cardset_def Let_def)

section \<open>The final reward\<close>

lemmas run_defs = run_DontDeclare_def run_Declare_def run_PlaceKitty_def run_PlaceAllKitty_def
  run_DontChaodi_def run_Chaodi_def run_Lead_def run_AppendLead_def run_EndLead_def
  run_Follow_def draw_card_def

lemma finish_round_rewards:
  "finish_round ops g1 lead moves p = Inr (g', nx, r) \<Longrightarrow> game_ended g' \<Longrightarrow> \<not> game_ended g1 \<Longrightarrow>
     final_opponent_reward g' = Some (opponent_reward (opponent_points g'))
     \<and> final_defender_reward g' = Some (- opponent_reward (opponent_points g'))"
  by (auto simp: finish_round_def Let_def split: if_splits option.splits)

lemma run_Follow_rewards:
  assumes "run_Follow ops g cs p = Inr (g', nx, r)" "game_ended g'" "\<not> game_ended g"
  shows "final_opponent_reward g' = Some (opponent_reward (opponent_points g'))
     \<and> final_defender_reward g' = Some (- opponent_reward (opponent_points g'))"
proof -
  from assms obtain g1 lead moves where
    fr: "finish_round ops g1 lead moves p = Inr (g', nx, r)" and ne: "\<not> game_ended g1"
    by (fastforce simp: run_Follow_def Let_def split: if_splits sum.splits prod.splits)
  from finish_round_rewards [OF fr assms(2) ne] show ?thesis .
qed

lemma run_action_game_ended_other:
  "run_action ops rnd g a p = Inr (g', nx, r) \<Longrightarrow> \<forall>cs. a \<noteq> FollowAction cs \<Longrightarrow>
     game_ended g' = game_ended g"
  by (cases a)
     (auto simp: run_defs Let_def
      split: if_splits sum.splits option.splits prod.splits list.splits)

text \<open>
  Claim C8. The action that ends the game sets the two final rewards from the
  challengers' cumulative points: at 80 points or more the challengers' reward is 1 plus
  one for every full 40 points above 80 (so 1 at exactly 80); from 40 to 79 it is -1;
  from 1 to 39 it is -2; at 0 it is -3; and the defenders' reward is its negation.
\<close>

theorem final_reward_buckets:
  assumes "run_action ops rnd g a p = Inr (g', nx, r)" "\<not> game_ended g" "game_ended g'"
  shows "(80 \<le> opponent_points g' \<longrightarrow>
            final_opponent_reward g' = Some (1 + (opponent_points g' - 80) div 40))
       \<and> (40 \<le> opponent_points g' \<and> opponent_points g' \<le> 79 \<longrightarrow>
            final_opponent_reward g' = Some (- 1))
       \<and> (1 \<le> opponent_points g' \<and> opponent_points g' \<le> 39 \<longrightarrow>
            final_opponent_reward g' = Some (- 2))
       \<and> (opponent_points g' = 0 \<longrightarrow> final_opponent_reward g' = Some (- 3))
       \<and> (\<exists>x. final_opponent_reward g' = Some x \<and> final_defender_reward g' = Some (- x))"
proof -
  have "\<exists>cs. a = FollowAction cs"
    using run_action_game_ended_other [OF assms(1)] assms(2,3) by blast
  then obtain cs where a: "a = FollowAction cs" ..
  with assms(1) have "run_Follow ops g cs p = Inr (g', nx, r)" by simp
  from run_Follow_rewards [OF this assms(3,2)] show ?thesis
    by (simp add: opponent_reward_def)
qed

text \<open>
  The witness is the last action of the driven game: East follows with its last card,
  the six of spades; the challengers end with 65 points.
\<close>

theorem final_reward_buckets_witness:
  "(case driven 211 of
      Inr (g, q) \<Rightarrow>
        (case run_action singles_ops NORTH g (FollowAction {#Card L6 SPADE#}) EAST of
           Inr (g', nx, r) \<Rightarrow>
             opponent_points g' = 65 \<and> final_opponent_reward g' = Some (- 1)
             \<and> final_defender_reward g' = Some 1
         | Inl e \<Rightarrow> False)
    | Inl e \<Rightarrow> False)"
proof -
  have ev: "(case driven 211 of
      Inr (g, q) \<Rightarrow>
        (case run_action singles_ops NORTH g (FollowAction {#Card L6 SPADE#}) EAST of
           Inr (g', nx, r) \<Rightarrow> \<not> game_ended g \<and> game_ended g' \<and> opponent_points g' = 65
         | Inl e \<Rightarrow> False)
    | Inl e \<Rightarrow> False)"
    by code_simp
  then obtain g q where g: "driven 211 = Inr (g, q)"
    by (cases "driven 211") auto
  with ev obtain g' nx r where
    step: "run_action singles_ops NORTH g (FollowAction {#Card L6 SPADE#}) EAST = Inr (g', nx, r)"
    by (cases "run_action singles_ops NORTH g (FollowAction {#Card L6 SPADE#}) EAST") auto
  from ev g step have facts: "\<not> game_ended g" "game_ended g'" "opponent_points g' = 65"
    by auto
  from final_reward_buckets [OF step facts(1,2)] facts(3) show ?thesis
    by (auto simp: g step simp del: run_action.simps)
qed

section \<open>Declarations\<close>

text \<open>
  Claim C7 says that a declare attempt supersedes the standing declaration exactly when
  its level is strictly higher, or its level is equal while its bidder differs and its
  suit matches. \<^verbatim>\<open>run_action\<close> asserts a strictly higher level and nothing else. In the
  unshuffled double deck North holds a two of hearts after its 24th card and declares
  hearts at level 0; South, who holds the other two of hearts, then declares hearts at
  level 0: equal level, another bidder, the same suit, and the assertion fails.
\<close>

theorem equal_level_declare_rejected:
  "(case play (ORDERING @ ORDERING) False False
           (passes 0 92 @ [(DeclareAction (mk_Declaration TS_HEART 0 NORTH), NORTH),
                           (DontDeclareAction, WEST)]) of
      Inr g \<Rightarrow>
        stage g = declare_stage
        \<and> declarations g = [mk_Declaration TS_HEART 0 NORTH]
        \<and> count (hands g SOUTH) (Card L2 HEART) = 1
        \<and> (case run_action singles_ops NORTH g (DeclareAction (mk_Declaration TS_HEART 0 SOUTH)) SOUTH of
             Inr out \<Rightarrow> False
           | Inl e \<Rightarrow> e = AssertionError)
    | Inl e \<Rightarrow> False)"
  by code_simp

text \<open>
  Claim C7, amended. For a standing declaration and a declare attempt by a seat that
  holds a qualifying card (with a card left to draw while fewer than 100 are dealt), the
  attempt is accepted and becomes the last declaration exactly when its level is strictly
  higher; at an equal or lower level it fails with the assertion, whoever bids and
  whatever the suit.
\<close>

theorem declare_accepted_iff:
  assumes "declarations g \<noteq> []"
    and "get_count (hands g p) (suit d) (dominant_rank g) = Inr n" and "n \<ge> 1"
    and "get_card d (dominant_rank g) \<noteq> None"
    and "hands_total g < 100 \<longrightarrow> deck g \<noteq> []"
  shows "(level (last (declarations g)) < level d \<longrightarrow>
           (\<exists>g' nx r. run_action ops rnd g (DeclareAction d) p = Inr (g', nx, r)
               \<and> declarations g' = declarations g @ [d]))
       \<and> (\<not> level (last (declarations g)) < level d \<longrightarrow>
           run_action ops rnd g (DeclareAction d) p = Inl AssertionError)"
  using assms
  by (auto simp: run_Declare_def draw_card_def Let_def hands_total_def
      split: if_splits sum.splits option.splits prod.splits list.splits)

theorem declare_accepted_iff_witness:
  "(case play (ORDERING @ ORDERING) False False
           (passes 0 92 @ [(DeclareAction (mk_Declaration TS_HEART 0 NORTH), NORTH),
                           (DontDeclareAction, WEST)]) of
      Inr g \<Rightarrow>
        (\<exists>g' nx r. run_action singles_ops NORTH g (DeclareAction (mk_Declaration TS_HEART 1 SOUTH)) SOUTH
                      = Inr (g', nx, r)
            \<and> declarations g' = declarations g @ [mk_Declaration TS_HEART 1 SOUTH])
        \<and> run_action singles_ops NORTH g (DeclareAction (mk_Declaration TS_HEART 0 SOUTH)) SOUTH
            = Inl AssertionError
    | Inl e \<Rightarrow> False)"
proof -
  let ?acts = "passes 0 92 @ [(DeclareAction (mk_Declaration TS_HEART 0 NORTH), NORTH),
                           (DontDeclareAction, WEST)]"
  have ev: "(case play (ORDERING @ ORDERING) False False ?acts of
      Inr g \<Rightarrow>
        declarations g \<noteq> [] \<and> level (last (declarations g)) = 0
        \<and> (case get_count (hands g SOUTH) TS_HEART (dominant_rank g) of
             Inr n \<Rightarrow> n = 1 | Inl e \<Rightarrow> False)
        \<and> dominant_rank g = 2 \<and> deck g \<noteq> []
    | Inl e \<Rightarrow> False)"
    by code_simp
  then obtain g where g: "play (ORDERING @ ORDERING) False False ?acts = Inr g"
    by (cases "play (ORDERING @ ORDERING) False False ?acts") auto
  with ev have f: "declarations g \<noteq> []" "level (last (declarations g)) = 0"
    "dominant_rank g = 2" "deck g \<noteq> []"
    and c: "(case get_count (hands g SOUTH) TS_HEART (dominant_rank g) of
             Inr n \<Rightarrow> n = 1 | Inl e \<Rightarrow> False)"
    by auto
  from c have cnt: "get_count (hands g SOUTH) TS_HEART (dominant_rank g) = Inr 1"
    by (cases "get_count (hands g SOUTH) TS_HEART (dominant_rank g)") auto
  have gc: "get_card (mk_Declaration TS_HEART l SOUTH) (dominant_rank g) \<noteq> None" for l
    by (simp add: get_card_def mk_Declaration_def f(3) LETTER_RANK_def)
  have hi: "level (last (declarations g)) < level (mk_Declaration TS_HEART 1 SOUTH)"
    and lo: "\<not> level (last (declarations g)) < level (mk_Declaration TS_HEART 0 SOUTH)"
    by (simp_all add: f(2) mk_Declaration_def)
  have s: "suit (mk_Declaration TS_HEART l SOUTH) = TS_HEART" for l
    by (simp add: mk_Declaration_def)
  from declare_accepted_iff [of g SOUTH "mk_Declaration TS_HEART 1 SOUTH" 1 singles_ops NORTH]
    declare_accepted_iff [of g SOUTH "mk_Declaration TS_HEART 0 SOUTH" 1 singles_ops NORTH]
    f(1) cnt gc f(4) hi lo s
  show ?thesis by (simp add: g)
qed

section \<open>Passing in the DECLARE stage\<close>




section \<open>Bid levels of the accepted declarations\<close>

text \<open>
  Claim C6 says that the accepted declarations of a game, those of the counter-bid
  phase included, have strictly increasing levels. A counter-bid is ordered by
  \<^verbatim>\<open>chaodi_level\<close>, not by level, and \<^verbatim>\<open>run_action\<close> appends it unchecked. North declares
  diamonds with a pair (level 1) and sets the kitty; West, holding the pair of twos of
  clubs, is offered the counter-bid clubs at level 1 and takes it: the levels of the two
  accepted declarations are 1 and 1, with different suits.
\<close>

theorem chaodi_keeps_level:
  "(case play pair_deck True False declare_then_kitty of
      Inr g \<Rightarrow>
        stage g = chaodi_stage \<and> current_chaodi_turn g = Some WEST
        \<and> chaodi_offered g TS_CLUB 1 \<and> count (hands g WEST) (Card L2 CLUB) = 2
        \<and> (case run_action singles_ops NORTH g (ChaodiAction (mk_Declaration TS_CLUB 1 WEST)) WEST of
             Inr (g', nx, r) \<Rightarrow>
               declarations g' = [mk_Declaration TS_DIAMOND 1 NORTH, mk_Declaration TS_CLUB 1 WEST]
               \<and> \<not> sorted_wrt (<) (map level (declarations g'))
           | Inl e \<Rightarrow> False)
    | Inl e \<Rightarrow> False)"
  by code_simp

lemma declarations_step:
  "run_action ops rnd g a p = Inr (g', nx, r) \<Longrightarrow> \<not> is_chaodi a \<Longrightarrow>
     declarations g' = declarations g
     \<or> (\<exists>d. a = DeclareAction d \<and> declarations g' = declarations g @ [d]
           \<and> (declarations g = [] \<or> level (last (declarations g)) < level d))"
  by (cases a)
     (auto simp: run_defs finish_round_def Let_def
      split: if_splits sum.splits option.splits prod.splits list.splits)

lemma sorted_le_last:
  "sorted_wrt (<) (xs :: int list) \<Longrightarrow> y \<in> set xs \<Longrightarrow> y \<le> last xs"
proof (induction xs)
  case Nil
  then show ?case by simp
next
  case (Cons a xs)
  show ?case
  proof (cases "xs = []")
    case True
    with Cons.prems show ?thesis by simp
  next
    case False
    then have "last xs \<in> set xs" by simp
    with Cons.prems(1) have lt: "a < last xs" by simp
    from Cons.prems(1) have st: "sorted_wrt (<) xs" by simp
    from Cons.prems(2) have "y = a \<or> y \<in> set xs" by simp
    then show ?thesis
    proof
      assume "y = a"
      with lt False show ?thesis by simp
    next
      assume "y \<in> set xs"
      from Cons.IH [OF st this] False show ?thesis by simp
    qed
  qed
qed

lemma sorted_snoc_last:
  assumes "sorted_wrt (<) (xs :: int list)" "xs = [] \<or> last xs < x"
  shows "sorted_wrt (<) (xs @ [x])"
proof -
  have "y < x" if "y \<in> set xs" for y
    using sorted_le_last [OF assms(1) that] assms(2) that by auto
  with assms(1) show ?thesis by (simp add: sorted_wrt_append)
qed

lemma levels_step:
  assumes "run_action ops rnd g a p = Inr (g', nx, r)" "\<not> is_chaodi a"
    "sorted_wrt (<) (map level (declarations g))"
  shows "sorted_wrt (<) (map level (declarations g'))"
proof -
  from declarations_step [OF assms(1,2)] show ?thesis
  proof
    assume "declarations g' = declarations g"
    with assms(3) show ?thesis by simp
  next
    assume "\<exists>d. a = DeclareAction d \<and> declarations g' = declarations g @ [d]
           \<and> (declarations g = [] \<or> level (last (declarations g)) < level d)"
    then obtain d where d: "declarations g' = declarations g @ [d]"
      "declarations g = [] \<or> level (last (declarations g)) < level d" by blast
    have "map level (declarations g) = [] \<or> last (map level (declarations g)) < level d"
      using d(2) by (cases "declarations g = []") (simp_all add: last_map)
    from sorted_snoc_last [OF assms(3) this] show ?thesis by (simp add: d(1))
  qed
qed

lemma levels_run:
  "run_actions ops rnd g acts = Inr g' \<Longrightarrow> \<forall>x \<in> set acts. \<not> is_chaodi (fst x) \<Longrightarrow>
     sorted_wrt (<) (map level (declarations g)) \<Longrightarrow>
     sorted_wrt (<) (map level (declarations g'))"
proof (induction acts arbitrary: g)
  case Nil
  then show ?case by simp
next
  case (Cons x acts)
  obtain a p where x: "x = (a, p)" by (cases x)
  from Cons.prems(1) obtain g1 nx r where
    s: "run_action ops rnd g a p = Inr (g1, nx, r)" and rest: "run_actions ops rnd g1 acts = Inr g'"
    by (auto simp: x split: sum.splits)
  from Cons.prems(2) have na: "\<not> is_chaodi a" by (simp add: x)
  from levels_step [OF s na Cons.prems(3)] Cons.IH [OF rest] Cons.prems(2)
  show ?case by simp
qed

text \<open>
  Claim C6, amended. In a game started from its construction, as long as no counter-bid
  is among the applied actions, the levels of the accepted declarations are strictly
  increasing. (A counter-bid is appended without a level check; the legal-action list
  offers it by \<^verbatim>\<open>chaodi_level\<close>.)
\<close>

theorem declare_levels_increase:
  assumes "start_game rnd (Game_init sh tu dr dl ec cb dk w ov cp ca) = Inr (g1, p1)"
    and "run_actions ops rnd g1 acts = Inr g"
    and "\<forall>x \<in> set acts. \<not> is_chaodi (fst x)"
  shows "sorted_wrt (<) (map level (declarations g))"
proof -
  from assms(1) have "declarations g1 = []"
    by (auto simp: start_game_def draw_card_def Game_init_def Let_def
        split: list.splits option.splits if_splits)
  then have "sorted_wrt (<) (map level (declarations g1))" by simp
  from levels_run [OF assms(2,3) this] show ?thesis .
qed

theorem declare_levels_increase_witness:
  "(case play pair_deck True False two_declarations of
      Inr g \<Rightarrow>
        map level (declarations g) = [0, 1] \<and> sorted_wrt (<) (map level (declarations g))
    | Inl e \<Rightarrow> False)"
proof -
  have ev: "(case play pair_deck True False two_declarations of
      Inr g \<Rightarrow> map level (declarations g) = [0, 1] | Inl e \<Rightarrow> False)"
    by code_simp
  then obtain g where g: "play pair_deck True False two_declarations = Inr g"
    by (cases "play pair_deck True False two_declarations") auto
  then obtain g1 p1 where
    st: "start_game NORTH
           (Game_init (ORDERING @ ORDERING) [] 2 (Some NORTH) True False (Some pair_deck)
              False 0 (1 / 10) False) = Inr (g1, p1)"
    and run: "run_actions singles_ops NORTH g1 two_declarations = Inr g"
    by (auto simp: play_def new_game_def split: sum.splits)
  have nc: "\<forall>x \<in> set two_declarations. \<not> is_chaodi (fst x)"
    by code_simp
  from declare_levels_increase [OF st run nc] ev show ?thesis
    by (simp add: g)
qed

section \<open>The number of cards in play\<close>





lemma cards_total_eqI0:
  "hands g' = hands g \<Longrightarrow>
   size (kitty g') + length (deck g') + played_total g'
     = size (kitty g) + length (deck g) + played_total g \<Longrightarrow>
   cards_total g' = cards_total g"
  by (simp add: cards_total_def hands_total_def)

lemma played_total_last:
  assumes "round_history g \<noteq> []" "last (round_history g) = (lead, moves)"
    "round_history g' = butlast (round_history g) @ [(lead, moves')]"
  shows "played_total g' + sum_list (map size moves) = played_total g + sum_list (map size moves')"
proof -
  define B where "B = butlast (round_history g)"
  from assms(1,2) have rh: "round_history g = B @ [(lead, moves)]"
    unfolding B_def by (metis append_butlast_last_id)
  from assms(3) have rh': "round_history g' = B @ [(lead, moves')]"
    by (simp add: B_def)
  show ?thesis by (simp add: played_total_def rh rh')
qed














lemma ct_Lead:
  "run_action ops rnd g (LeadAction m) p = Inr (g', nx, r) \<Longrightarrow>
     cards_total g' = cards_total g + size (cardset m)"
proof -
  assume a: "run_action ops rnd g (LeadAction m) p = Inr (g', nx, r)"
  then have ne: "round_history g \<noteq> []"
    by (auto simp: run_Lead_def split: if_splits)
  obtain lead moves where l: "last (round_history g) = (lead, moves)"
    by (cases "last (round_history g)")
  from a ne l have hg: "hands g' = hands g" and k: "kitty g' = kitty g" and d: "deck g' = deck g"
    and rh: "round_history g' = butlast (round_history g) @ [(lead, moves @ [cardset m])]"
    by (auto simp: run_Lead_def Let_def split: if_splits)
  from played_total_last [OF ne l rh]
  have "played_total g' = played_total g + size (cardset m)" by simp
  with hg k d show ?thesis by (simp add: cards_total_def hands_total_def)
qed








section \<open>What an observation shows of the other seats\<close>

text \<open>
  Claim C9 says that an observation exposes of the other three seats only their public
  cards, so that two states that differ only in the hidden hand cards of the other
  seats give a seat the same observation. \<^verbatim>\<open>get_observation\<close> also passes the other seats'
  hands themselves, as \<^verbatim>\<open>actual_left\<close>, \<^verbatim>\<open>actual_right\<close> and \<^verbatim>\<open>actual_opposite\<close>. After the deal
  of the unshuffled double deck no card is public; exchanging the hands of West and
  South changes North's observation.
\<close>

theorem observation_shows_hidden_hands:
  "(case play (ORDERING @ ORDERING) False False (passes 0 104) of
      Inr g \<Rightarrow>
        public_cards g WEST = {#} \<and> public_cards g SOUTH = {#}
        \<and> (case get_observation singles_ops g NORTH of
             Inr ob \<Rightarrow>
               (case get_observation singles_ops
                       (g\<lparr>hands := (hands g)(WEST := hands g SOUTH, SOUTH := hands g WEST)\<rparr>)
                       NORTH of
                  Inr ob' \<Rightarrow>
                    obs_actual_right ob = hands g WEST \<and> obs_actual_right ob' = hands g SOUTH
                    \<and> obs_actual_right ob \<noteq> obs_actual_right ob'
                | Inl e \<Rightarrow> False)
           | Inl e \<Rightarrow> False)
    | Inl e \<Rightarrow> False)"
  by code_simp

lemma declare_offered_hands: "declare_offered (g\<lparr>hands := h\<rparr>) p = declare_offered g p"
  by (simp add: fun_eq_iff declare_offered_def)

lemma chaodi_offered_hands: "chaodi_offered (g\<lparr>hands := h\<rparr>) = chaodi_offered g"
  by (simp add: fun_eq_iff chaodi_offered_def)

lemma legal_actions_other_hands:
  "h p = hands g p \<Longrightarrow> legal_actions ops (g\<lparr>hands := h\<rparr>) p = legal_actions ops g p"
  by (auto simp: legal_actions_def dominant_suit_def declare_offered_hands chaodi_offered_hands
      Let_def split: prod.splits list.splits sum.splits)

text \<open>
  Claim C9, amended. Two states that differ only in the hands of the other seats give a
  seat observations that agree in every field except \<^verbatim>\<open>actual_left\<close>, \<^verbatim>\<open>actual_right\<close> and
  \<^verbatim>\<open>actual_opposite\<close>, which carry the other seats' hands; in particular both calls fail
  or both return. Of the other seats the remaining fields show the public cards only.
\<close>

theorem observation_without_actual_hands:
  "h p = hands g p \<Longrightarrow>
     map_sum id without_actual_hands (get_observation ops (g\<lparr>hands := h\<rparr>) p)
       = map_sum id without_actual_hands (get_observation ops g p)"
  by (simp add: get_observation_def legal_actions_other_hands without_actual_hands_def
      split: sum.splits)

theorem observation_without_actual_hands_witness:
  "(case play (ORDERING @ ORDERING) False False (passes 0 104) of
      Inr g \<Rightarrow>
        map_sum id without_actual_hands
          (get_observation singles_ops
             (g\<lparr>hands := (hands g)(WEST := hands g SOUTH, SOUTH := hands g WEST)\<rparr>) NORTH)
        = map_sum id without_actual_hands (get_observation singles_ops g NORTH)
        \<and> (case get_observation singles_ops g NORTH of
             Inr ob \<Rightarrow> length (obs_actions ob) = 31 \<and> obs_perceived_right ob = {#}
           | Inl e \<Rightarrow> False)
    | Inl e \<Rightarrow> False)"
proof -
  have ev: "(case play (ORDERING @ ORDERING) False False (passes 0 104) of
      Inr g \<Rightarrow>
        (case get_observation singles_ops g NORTH of
           Inr ob \<Rightarrow> length (obs_actions ob) = 31 \<and> obs_perceived_right ob = {#}
         | Inl e \<Rightarrow> False)
    | Inl e \<Rightarrow> False)"
    by code_simp
  then obtain g where g: "play (ORDERING @ ORDERING) False False (passes 0 104) = Inr g"
    by (cases "play (ORDERING @ ORDERING) False False (passes 0 104)") auto
  have same: "((hands g)(WEST := hands g SOUTH, SOUTH := hands g WEST)) NORTH = hands g NORTH"
    by simp
  from observation_without_actual_hands
         [of "(hands g)(WEST := hands g SOUTH, SOUTH := hands g WEST)" NORTH g singles_ops]
    same ev
  show ?thesis
    by (simp add: g)
qed

end
